theory Spec2Isabelle
  imports Complex_Main
begin

section \<open>Doubles, vectors and recycled reads\<close>

text \<open>
  A C++ \<open>double\<close> is a finite number, one of the two infinities, a plain not-a-number
  (\<open>NAN\<close>), or R's missing value (\<open>NA_REAL\<close>, a not-a-number with a reserved payload).
  Finite values are idealised as reals: rounding, overflow and the sign of zero are
  outside this model. \<open>ISNAN\<close> is R's macro, true of both not-a-number values.
\<close>

datatype dbl = Fin real | PInf | NInf | NaN | NA

definition ISNAN :: "dbl \<Rightarrow> bool" where
  "ISNAN x = (x = NaN \<or> x = NA)"

fun dlt :: "dbl \<Rightarrow> dbl \<Rightarrow> bool" where
  "dlt (Fin a) (Fin b) = (a < b)"
| "dlt (Fin a) PInf = True"
| "dlt NInf (Fin b) = True"
| "dlt NInf PInf = True"
| "dlt x y = False"

definition dle :: "dbl \<Rightarrow> dbl \<Rightarrow> bool" where
  "dle x y = (dlt x y \<or> (x = y \<and> \<not> ISNAN x))"

definition deq :: "dbl \<Rightarrow> dbl \<Rightarrow> bool" where
  "deq x y = (x = y \<and> \<not> ISNAN x)"

fun dneg :: "dbl \<Rightarrow> dbl" where
  "dneg (Fin a) = Fin (- a)"
| "dneg PInf = NInf"
| "dneg NInf = PInf"
| "dneg x = x"

fun dabs :: "dbl \<Rightarrow> dbl" where
  "dabs (Fin a) = Fin \<bar>a\<bar>"
| "dabs NInf = PInf"
| "dabs x = x"

fun dadd :: "dbl \<Rightarrow> dbl \<Rightarrow> dbl" where
  "dadd NaN y = NaN"
| "dadd NA y = NA"
| "dadd x NaN = NaN"
| "dadd x NA = NA"
| "dadd (Fin a) (Fin b) = Fin (a + b)"
| "dadd PInf NInf = NaN"
| "dadd NInf PInf = NaN"
| "dadd PInf y = PInf"
| "dadd NInf y = NInf"
| "dadd x PInf = PInf"
| "dadd x NInf = NInf"

definition dsub :: "dbl \<Rightarrow> dbl \<Rightarrow> dbl" where
  "dsub x y = dadd x (dneg y)"

fun dmul :: "dbl \<Rightarrow> dbl \<Rightarrow> dbl" where
  "dmul NaN y = NaN"
| "dmul NA y = NA"
| "dmul x NaN = NaN"
| "dmul x NA = NA"
| "dmul (Fin a) (Fin b) = Fin (a * b)"
| "dmul (Fin a) PInf = (if a = 0 then NaN else if 0 < a then PInf else NInf)"
| "dmul (Fin a) NInf = (if a = 0 then NaN else if 0 < a then NInf else PInf)"
| "dmul PInf (Fin b) = (if b = 0 then NaN else if 0 < b then PInf else NInf)"
| "dmul NInf (Fin b) = (if b = 0 then NaN else if 0 < b then NInf else PInf)"
| "dmul PInf PInf = PInf"
| "dmul PInf NInf = NInf"
| "dmul NInf PInf = NInf"
| "dmul NInf NInf = PInf"

fun ddiv :: "dbl \<Rightarrow> dbl \<Rightarrow> dbl" where
  "ddiv NaN y = NaN"
| "ddiv NA y = NA"
| "ddiv x NaN = NaN"
| "ddiv x NA = NA"
| "ddiv (Fin a) (Fin b) =
     (if b = 0 then (if a = 0 then NaN else if 0 < a then PInf else NInf) else Fin (a / b))"
| "ddiv (Fin a) y = Fin 0"
| "ddiv PInf (Fin b) = (if 0 \<le> b then PInf else NInf)"
| "ddiv NInf (Fin b) = (if 0 \<le> b then NInf else PInf)"
| "ddiv x y = NaN"

fun dexp :: "dbl \<Rightarrow> dbl" where
  "dexp (Fin a) = Fin (exp a)"
| "dexp NInf = Fin 0"
| "dexp x = x"

fun dlog :: "dbl \<Rightarrow> dbl" where
  "dlog (Fin a) = (if 0 < a then Fin (ln a) else if a = 0 then NInf else NaN)"
| "dlog NInf = NaN"
| "dlog x = x"


fun dfloor :: "dbl \<Rightarrow> dbl" where
  "dfloor (Fin a) = Fin (of_int \<lfloor>a\<rfloor>)"
| "dfloor x = x"

definition is_whole :: "real \<Rightarrow> bool" where
  "is_whole b = (of_int \<lfloor>b\<rfloor> = b)"

text \<open>
  \<open>pow\<close> of the C library: \<open>pow(x, 0)\<close> and \<open>pow(1, y)\<close> are 1 even for a not-a-number
  argument, a negative base needs a whole exponent, and a zero base with a negative
  exponent is a pole.
\<close>

fun pow_fin :: "real \<Rightarrow> real \<Rightarrow> dbl" where
  "pow_fin a b =
     (if 0 < a then Fin (a powr b)
      else if a = 0 then (if 0 < b then Fin 0 else PInf)
      else if is_whole b then Fin ((if even \<lfloor>b\<rfloor> then 1 else - 1) * (\<bar>a\<bar> powr b))
      else NaN)"

fun pow_inf :: "dbl \<Rightarrow> dbl \<Rightarrow> dbl" where
  "pow_inf (Fin a) PInf = (if \<bar>a\<bar> < 1 then Fin 0 else if \<bar>a\<bar> = 1 then Fin 1 else PInf)"
| "pow_inf (Fin a) NInf = (if \<bar>a\<bar> < 1 then PInf else if \<bar>a\<bar> = 1 then Fin 1 else Fin 0)"
| "pow_inf PInf (Fin b) = (if 0 < b then PInf else Fin 0)"
| "pow_inf NInf (Fin b) =
     (if 0 < b then (if is_whole b \<and> odd \<lfloor>b\<rfloor> then NInf else PInf) else Fin 0)"
| "pow_inf x PInf = PInf"
| "pow_inf x y = Fin 0"

definition dpow :: "dbl \<Rightarrow> dbl \<Rightarrow> dbl" where
  "dpow x y =
     (if y = Fin 0 \<or> x = Fin 1 then Fin 1
      else if ISNAN x then x
      else if ISNAN y then y
      else case (x, y) of (Fin a, Fin b) \<Rightarrow> pow_fin a b | _ \<Rightarrow> pow_inf x y)"


definition isinf :: "dbl \<Rightarrow> bool" where
  "isinf x = (x = PInf \<or> x = NInf)"

text \<open>
  A read \<open>v[i % n]\<close> of a vector: a zero modulus and a read past the end are undefined
  behaviour in C++, kept here as errors of the call.
\<close>

datatype error = ModuloByZero | OutOfBounds | UndefinedCast | BadAlloc

definition rec_at :: "'a list \<Rightarrow> nat \<Rightarrow> nat \<Rightarrow> error + 'a" where
  "rec_at v i n =
     (if n = 0 then Inl ModuloByZero
      else if i mod n < length v then Inr (v ! (i mod n))
      else Inl OutOfBounds)"

text \<open>
  The loop \<open>for (int i = 0; i < Nmax; i++) p[i] = ...\<close>: the body, at index \<open>i\<close> and in
  state \<open>s\<close> (the warning flag, the warnings raised so far, a memo), gives the
  element and the next state, or fails.
\<close>

fun for_each ::
  "(nat \<Rightarrow> 's \<Rightarrow> error + ('a \<times> 's)) \<Rightarrow> nat list \<Rightarrow> 's \<Rightarrow> error + ('a list \<times> 's)" where
  "for_each body [] s = Inr ([], s)"
| "for_each body (i # js) s =
     (case body i s of
        Inl e \<Rightarrow> Inl e
      | Inr (v, s') \<Rightarrow>
          (case for_each body js s' of
             Inl e \<Rightarrow> Inl e
           | Inr (vs, s'') \<Rightarrow> Inr (v # vs, s'')))"

definition Nmax_of :: "nat list \<Rightarrow> nat" where
  "Nmax_of dims = fold max dims 0"

definition ebind :: "error + 'a \<Rightarrow> ('a \<Rightarrow> error + 'b) \<Rightarrow> error + 'b" where
  "ebind m f = (case m of Inl e \<Rightarrow> Inl e | Inr v \<Rightarrow> f v)"


section \<open>Helpers of shared.h\<close>

text \<open>
  Modelled from the spec: \<open>isInteger\<close> of shared.h is not among the sources. The spec has
  the discrete kernels give mass 0 at a query point that is not a whole number; the
  predicate is \<open>floor(x) == x\<close>. Any diagnostic it prints is not part of this model.
\<close>

definition isInteger :: "dbl \<Rightarrow> bool" where
  "isInteger x = deq (dfloor x) x"

text \<open>
  Modelled from the spec: the macro \<open>VALID_PROB\<close> of shared.h is not among the sources. A
  probability is valid when it lies in \<open>[0, 1]\<close>.
\<close>

definition VALID_PROB :: "dbl \<Rightarrow> bool" where
  "VALID_PROB p = (dle (Fin 0) p \<and> dle p (Fin 1))"

text \<open>
  Modelled from the spec: the validators \<open>nonneg_or_nan\<close> and \<open>zeroone_or_nan\<close> of
  shared.h are not among the sources. Following the parameter validator of the spec, an
  element outside the domain becomes a not-a-number and every other element, a missing
  one included, is kept.
\<close>

definition nonneg_or_nan :: "dbl list \<Rightarrow> dbl list" where
  "nonneg_or_nan v = map (\<lambda>x. if dlt x (Fin 0) then NaN else x) v"

definition zeroone_or_nan :: "dbl list \<Rightarrow> dbl list" where
  "zeroone_or_nan v = map (\<lambda>x. if dlt x (Fin 0) \<or> dlt (Fin 1) x then NaN else x) v"


section \<open>Zero-inflated binomial\<close>

text \<open>
  \<open>R::dbinom\<close>, \<open>R::pbinom\<close> and \<open>R::qbinom\<close> belong to R's numeric library; the kernels
  take them as the arguments \<open>dbinom\<close>, \<open>pbinom\<close> and \<open>qbinom\<close>.
\<close>

definition pdf_zib ::
  "(dbl \<Rightarrow> dbl \<Rightarrow> dbl \<Rightarrow> dbl) \<Rightarrow> dbl \<Rightarrow> dbl \<Rightarrow> dbl \<Rightarrow> dbl \<Rightarrow> dbl" where
  "pdf_zib dbinom x n p pii =
     (if ISNAN x \<or> ISNAN n \<or> ISNAN p \<or> ISNAN pii then NaN
      else if dlt x (Fin 0) \<or> \<not> isInteger x \<or> isinf x then Fin 0
      else if deq x (Fin 0) then dadd pii (dmul (dsub (Fin 1) pii) (dpow (dsub (Fin 1) p) n))
      else dmul (dsub (Fin 1) pii) (dbinom x n p))"

definition cdf_zib ::
  "(dbl \<Rightarrow> dbl \<Rightarrow> dbl \<Rightarrow> dbl) \<Rightarrow> dbl \<Rightarrow> dbl \<Rightarrow> dbl \<Rightarrow> dbl \<Rightarrow> dbl" where
  "cdf_zib pbinom x n p pii =
     (if ISNAN x \<or> ISNAN n \<or> ISNAN p \<or> ISNAN pii then NaN
      else if dlt x (Fin 0) then Fin 0
      else if isinf x then Fin 1
      else dadd pii (dmul (dsub (Fin 1) pii) (pbinom x n p)))"

definition invcdf_zib ::
  "(dbl \<Rightarrow> dbl \<Rightarrow> dbl \<Rightarrow> dbl) \<Rightarrow> dbl \<Rightarrow> dbl \<Rightarrow> dbl \<Rightarrow> dbl \<Rightarrow> dbl" where
  "invcdf_zib qbinom pp n p pii =
     (if ISNAN pp \<or> ISNAN n \<or> ISNAN p \<or> ISNAN pii then NaN
      else if dlt pp pii then Fin 0
      else qbinom (ddiv (dsub pp pii) (dsub (Fin 1) pii)) n p)"

text \<open>
  The drivers. A stateless loop body carries the unit state. \<open>cpp_dzib\<close> reads \<open>pi_n\<close>
  modulo \<open>npi\<close>; \<open>cpp_pzib\<close> and \<open>cpp_qzib\<close> read it modulo \<open>np\<close>, as the source does.
\<close>

definition cpp_dzib ::
  "(dbl \<Rightarrow> dbl \<Rightarrow> dbl \<Rightarrow> dbl) \<Rightarrow> dbl list \<Rightarrow> dbl list \<Rightarrow> dbl list \<Rightarrow> dbl list \<Rightarrow> bool
     \<Rightarrow> error + dbl list" where
  "cpp_dzib dbinom x sz prob pii log_prob =
     (let n = length x; npi = length pii; ns = length sz; np = length prob;
          Nmax = Nmax_of [n, npi, ns, np];
          size_n = nonneg_or_nan sz; prob_n = zeroone_or_nan prob; pi_n = zeroone_or_nan pii
      in ebind
           (for_each (\<lambda>i u.
              ebind (rec_at x i n) (\<lambda>xi.
              ebind (rec_at size_n i ns) (\<lambda>si.
              ebind (rec_at prob_n i np) (\<lambda>pri.
              ebind (rec_at pi_n i npi) (\<lambda>pil.
                Inr (pdf_zib dbinom xi si pri pil, u))))))
              [0..<Nmax] ())
           (\<lambda>(p, u). Inr (if log_prob then map dlog p else p)))"

definition cpp_pzib ::
  "(dbl \<Rightarrow> dbl \<Rightarrow> dbl \<Rightarrow> dbl) \<Rightarrow> dbl list \<Rightarrow> dbl list \<Rightarrow> dbl list \<Rightarrow> dbl list \<Rightarrow> bool \<Rightarrow> bool
     \<Rightarrow> error + dbl list" where
  "cpp_pzib pbinom x sz prob pii lower_tail log_prob =
     (let n = length x; npi = length pii; ns = length sz; np = length prob;
          Nmax = Nmax_of [n, npi, ns, np];
          size_n = nonneg_or_nan sz; prob_n = zeroone_or_nan prob; pi_n = zeroone_or_nan pii
      in ebind
           (for_each (\<lambda>i u.
              ebind (rec_at x i n) (\<lambda>xi.
              ebind (rec_at size_n i ns) (\<lambda>si.
              ebind (rec_at prob_n i np) (\<lambda>pri.
              ebind (rec_at pi_n i np) (\<lambda>pil.
                Inr (cdf_zib pbinom xi si pri pil, u))))))
              [0..<Nmax] ())
           (\<lambda>(p, u).
              let p1 = (if \<not> lower_tail then map (dsub (Fin 1)) p else p)
              in Inr (if log_prob then map dlog p1 else p1)))"

definition cpp_qzib ::
  "(dbl \<Rightarrow> dbl \<Rightarrow> dbl \<Rightarrow> dbl) \<Rightarrow> dbl list \<Rightarrow> dbl list \<Rightarrow> dbl list \<Rightarrow> dbl list \<Rightarrow> bool \<Rightarrow> bool
     \<Rightarrow> error + dbl list" where
  "cpp_qzib qbinom p sz prob pii lower_tail log_prob =
     (let n = length p; npi = length pii; ns = length sz; np = length prob;
          Nmax = Nmax_of [n, npi, ns, np];
          size_n = nonneg_or_nan sz; prob_n = zeroone_or_nan prob; pi_n = zeroone_or_nan pii;
          pp1 = (if log_prob then map dexp p else p);
          pp2 = (if \<not> lower_tail then map (dsub (Fin 1)) pp1 else pp1);
          pp = zeroone_or_nan pp2
      in ebind
           (for_each (\<lambda>i u.
              ebind (rec_at pp i n) (\<lambda>ppi.
              ebind (rec_at size_n i ns) (\<lambda>si.
              ebind (rec_at prob_n i np) (\<lambda>pri.
              ebind (rec_at pi_n i np) (\<lambda>pil.
                Inr (invcdf_zib qbinom ppi si pri pil, u))))))
              [0..<Nmax] ())
           (\<lambda>(q, u). Inr q))"

section \<open>Re-parametrized beta\<close>

text \<open>
  \<open>Rcpp::warning\<close> raises one R warning at every call. A kernel that calls it gives its
  value together with the warnings it raised; the driver collects them in order.
  \<open>R::dbeta\<close> is taken as the argument \<open>dbeta\<close>.
\<close>

definition pdf_prop ::
  "(dbl \<Rightarrow> dbl \<Rightarrow> dbl \<Rightarrow> dbl) \<Rightarrow> dbl \<Rightarrow> dbl \<Rightarrow> dbl \<Rightarrow> dbl \<times> string list" where
  "pdf_prop dbeta x sz mean =
     (if ISNAN x \<or> ISNAN sz \<or> ISNAN mean then (NA, [])
      else if dle sz (Fin 0) \<or> dlt mean (Fin 0) \<or> dlt (Fin 1) mean
        then (NaN, [''NaNs produced''])
      else (dbeta x (dadd (dmul sz mean) (Fin 1))
                    (dadd (dmul sz (dsub (Fin 1) mean)) (Fin 1)), []))"

text \<open>
  \<open>cpp_dprop\<close> pushes the lengths of \<open>x\<close>, \<open>mean\<close> and \<open>size\<close> in this order and reads
  \<open>size[i % dims[1]]\<close> and \<open>mean[i % dims[2]]\<close>.
\<close>

definition cpp_dprop ::
  "(dbl \<Rightarrow> dbl \<Rightarrow> dbl \<Rightarrow> dbl) \<Rightarrow> dbl list \<Rightarrow> dbl list \<Rightarrow> dbl list \<Rightarrow> bool
     \<Rightarrow> error + (dbl list \<times> string list)" where
  "cpp_dprop dbeta x sz mean log_prob =
     (let dims = [length x, length mean, length sz];
          Nmax = Nmax_of dims
      in ebind
           (for_each (\<lambda>i w.
              ebind (rec_at x i (dims ! 0)) (\<lambda>xi.
              ebind (rec_at sz i (dims ! 1)) (\<lambda>si.
              ebind (rec_at mean i (dims ! 2)) (\<lambda>mi.
                case pdf_prop dbeta xi si mi of (v, w') \<Rightarrow> Inr (v, w @ w')))))
              [0..<Nmax] [])
           (\<lambda>(p, w). Inr (if log_prob then map dlog p else p, w)))"

section \<open>Power distribution\<close>



definition logcdf_power :: "dbl \<Rightarrow> dbl \<Rightarrow> dbl \<Rightarrow> dbl" where
  "logcdf_power x alpha beta =
     (if ISNAN x \<or> ISNAN alpha \<or> ISNAN beta then NA
      else if dle x (Fin 0) then NInf
      else if dle alpha x then Fin 0
      else dsub (dmul (dlog x) beta) (dmul (dlog alpha) beta))"

definition cpp_ppower ::
  "dbl list \<Rightarrow> dbl list \<Rightarrow> dbl list \<Rightarrow> bool \<Rightarrow> bool \<Rightarrow> error + dbl list" where
  "cpp_ppower x alpha beta lower_tail log_prob =
     (let dims = [length x, length alpha, length beta];
          Nmax = Nmax_of dims
      in ebind
           (for_each (\<lambda>i u.
              ebind (rec_at x i (dims ! 0)) (\<lambda>xi.
              ebind (rec_at alpha i (dims ! 1)) (\<lambda>ai.
              ebind (rec_at beta i (dims ! 2)) (\<lambda>bi.
                Inr (logcdf_power xi ai bi, u)))))
              [0..<Nmax] ())
           (\<lambda>(p, u).
              let p1 = (if \<not> lower_tail then map (dsub (Fin 1)) p else p)
              in Inr (if \<not> log_prob then map dexp p1 else p1)))"

section \<open>Kernels with a warning flag\<close>


definition cdf_kumar :: "dbl \<Rightarrow> dbl \<Rightarrow> dbl \<Rightarrow> bool \<Rightarrow> dbl \<times> bool" where
  "cdf_kumar x a b w =
     (if ISNAN x \<or> ISNAN a \<or> ISNAN b then (dadd (dadd x a) b, w)
      else if dle a (Fin 0) \<or> dle b (Fin 0) then (NaN, True)
      else if dlt x (Fin 0) then (Fin 0, w)
      else if dle (Fin 1) x then (Fin 1, w)
      else (dsub (Fin 1) (dpow (dsub (Fin 1) (dpow x a)) b), w))"











definition invcdf_tlambda :: "dbl \<Rightarrow> dbl \<Rightarrow> bool \<Rightarrow> dbl \<times> bool" where
  "invcdf_tlambda p lam w =
     (if ISNAN p \<or> ISNAN lam then (dadd p lam, w)
      else if \<not> VALID_PROB p then (NaN, True)
      else if deq lam (Fin 0) then (dsub (dlog p) (dlog (dsub (Fin 1) p)), w)
      else (ddiv (dsub (dpow p lam) (dpow (dsub (Fin 1) p) lam)) lam, w))"



definition cpp_pkumar ::
  "dbl list \<Rightarrow> dbl list \<Rightarrow> dbl list \<Rightarrow> bool \<Rightarrow> bool \<Rightarrow> error + (dbl list \<times> string list)" where
  "cpp_pkumar x a b lower_tail log_prob =
     (let dims = [length x, length a, length b];
          Nmax = Nmax_of dims
      in ebind
           (for_each (\<lambda>i w.
              ebind (rec_at x i (dims ! 0)) (\<lambda>xi.
              ebind (rec_at a i (dims ! 1)) (\<lambda>ai.
              ebind (rec_at b i (dims ! 2)) (\<lambda>bi.
                Inr (cdf_kumar xi ai bi w)))))
              [0..<Nmax] False)
           (\<lambda>(p, throw_warning).
              let p1 = (if \<not> lower_tail then map (dsub (Fin 1)) p else p);
                  p2 = (if log_prob then map dlog p1 else p1)
              in Inr (p2, if throw_warning then [''NaNs produced''] else [])))"


section \<open>Laplace\<close>

definition pdf_laplace :: "dbl \<Rightarrow> dbl \<Rightarrow> dbl \<Rightarrow> dbl \<times> string list" where
  "pdf_laplace x mu sigma =
     (if dle sigma (Fin 0) then (NaN, [''NaNs produced''])
      else let z = ddiv (dabs (dsub x mu)) sigma
           in (dmul (ddiv (Fin 1) (dmul (Fin 2) sigma)) (dexp (dneg z)), []))"




section \<open>Gamma-Poisson\<close>







section \<open>Multinomial generator\<close>

text \<open>
  A \<open>NumericMatrix\<close> is given by its rows, each of \<open>ncol\<close> cells. \<open>R::rbinom\<close> is the
  argument \<open>rbinom\<close>: its first argument is the number of variates drawn so far in the
  call, which stands for the state of the random stream.
\<close>

definition ncol :: "dbl list list \<Rightarrow> nat" where
  "ncol m = (case m of [] \<Rightarrow> 0 | r # rs \<Rightarrow> length r)"

text \<open>
  The first loop over a row stops at the first missing or negative weight; otherwise it
  sums the weights. The cell \<open>x(i % n, j)\<close> it also tests is a cell of the fresh result
  matrix, which is zero there.
\<close>

fun mnom_check :: "dbl list \<Rightarrow> dbl \<Rightarrow> bool \<times> dbl" where
  "mnom_check [] p_tot = (False, p_tot)"
| "mnom_check (pj # ps) p_tot =
     (if ISNAN pj \<or> ISNAN (Fin 0) \<or> dlt pj (Fin 0) then (True, p_tot)
      else mnom_check ps (dadd p_tot pj))"

text \<open>The second loop, over the categories but the last.\<close>

fun mnom_draw ::
  "(nat \<Rightarrow> dbl \<Rightarrow> dbl \<Rightarrow> dbl) \<Rightarrow> dbl \<Rightarrow> dbl list \<Rightarrow> nat \<times> dbl \<times> dbl
     \<Rightarrow> dbl list \<times> (nat \<times> dbl \<times> dbl)" where
  "mnom_draw rbinom p_tot [] s = ([], s)"
| "mnom_draw rbinom p_tot (pj # ps) s =
     (case s of (t, size_left, sum_p) \<Rightarrow>
        let p_tmp = ddiv pj p_tot;
            xj = rbinom t size_left (ddiv p_tmp sum_p)
        in case mnom_draw rbinom p_tot ps (Suc t, dsub size_left xj, dsub sum_p p_tmp) of
             (xs, s') \<Rightarrow> (xj # xs, s'))"

definition rmnom_row ::
  "(nat \<Rightarrow> dbl \<Rightarrow> dbl \<Rightarrow> dbl) \<Rightarrow> nat \<Rightarrow> dbl \<Rightarrow> dbl list \<Rightarrow> nat \<times> string list
     \<Rightarrow> error + (dbl list \<times> (nat \<times> string list))" where
  "rmnom_row rbinom k sz row s =
     (case s of (t, w) \<Rightarrow>
        case mnom_check (take k row) (Fin 0) of
          (throw_warning, p_tot) \<Rightarrow>
            if throw_warning \<or> ISNAN sz \<or> dlt sz (Fin 0) \<or> \<not> isInteger sz
            then Inr (replicate k NA, (t, w @ [''NAs produced'']))
            else if k = 0 then Inl OutOfBounds
            else case mnom_draw rbinom p_tot (take (k - 1) row) (t, sz, Fin 1) of
                   (xs, (t', size_left, sum_p)) \<Rightarrow> Inr (xs @ [size_left], (t', w)))"

definition cpp_rmnom ::
  "(nat \<Rightarrow> dbl \<Rightarrow> dbl \<Rightarrow> dbl) \<Rightarrow> nat \<Rightarrow> dbl list \<Rightarrow> dbl list list
     \<Rightarrow> error + (dbl list list \<times> string list)" where
  "cpp_rmnom rbinom n sz prob =
     (let dims = [length sz, length prob];
          k = ncol prob
      in ebind
           (for_each (\<lambda>i s.
              ebind (rec_at sz i (dims ! 0)) (\<lambda>si.
              ebind (rec_at prob i (dims ! 1)) (\<lambda>row.
                rmnom_row rbinom k si row s)))
              [0..<n] (0, []))
           (\<lambda>(x, (t, w)). Inr (x, w)))"

text \<open>
  R's binomial sampler, as R documents it: the result is a not-a-number when the size is
  not a finite non-negative whole number or the probability is not a number in \<open>[0, 1]\<close>;
  otherwise it is a count between 0 and the size, which is 0 for a zero size or a zero
  probability and the size itself for probability 1. \<open>draw t\<close> is the raw count the
  random stream gives at its \<open>t\<close>-th variate.
\<close>

definition R_rbinom :: "(nat \<Rightarrow> nat) \<Rightarrow> nat \<Rightarrow> dbl \<Rightarrow> dbl \<Rightarrow> dbl" where
  "R_rbinom draw t n p =
     (case (n, p) of
        (Fin nr, Fin pr) \<Rightarrow>
          if nr < 0 \<or> pr < 0 \<or> 1 < pr \<or> \<not> is_whole nr then NaN
          else if nr = 0 \<or> pr = 0 then Fin 0
          else if pr = 1 then Fin nr
          else Fin (real (min (draw t) (nat \<lfloor>nr\<rfloor>)))
      | _ \<Rightarrow> NaN)"

section \<open>The gamma-Poisson cumulative probabilities, as sums\<close>












section \<open>Output indices with an out-of-domain parameter\<close>





section \<open>Basic facts\<close>

lemma upt_0_2: "[0..<2] = [0, 1]"
  by (simp add: upt_rec)


lemma dsub_Fin: "dsub (Fin x) (Fin y) = Fin (x - y)"
  by (simp add: dsub_def)

lemma dpow_nat: "0 \<le> a \<Longrightarrow> dpow (Fin a) (Fin (real k)) = Fin (a ^ k)"
  by (cases "k = 0") (auto simp: dpow_def ISNAN_def powr_realpow)



section \<open>Recycling in the zero-inflated binomial and re-parametrized beta drivers\<close>

text \<open>
  The density driver recycles \<open>pi\<close> by its own length: with \<open>pi\<close> of length 2 and the other
  arguments of length 1, the two elements use \<open>pi[0]\<close> and \<open>pi[1]\<close>.
\<close>

lemma cpp_dzib_recycles_pi:
  "cpp_dzib dbinom [Fin 0] [Fin 1] [Fin (1/2)] [Fin (1/10), Fin (9/10)] False
     = Inr [Fin (11/20), Fin (19/20)]"
  by (simp add: cpp_dzib_def Nmax_of_def upt_0_2 rec_at_def ebind_def nonneg_or_nan_def
      zeroone_or_nan_def pdf_zib_def ISNAN_def isinf_def dsub_def isInteger_def deq_def dpow_def)

text \<open>
  C1. Every driver should read element \<open>i\<close> of each argument at \<open>i mod\<close> that argument's
  own length. \<open>cpp_pzib\<close> reads \<open>pi\<close> modulo the length of \<open>prob\<close>: on
  \<open>x = [0]\<close>, \<open>size = [1]\<close>, \<open>prob = [1/2]\<close>, \<open>pi = [1/10, 9/10]\<close> both output elements are
  computed with \<open>pi[0] = 1/10\<close>; element 1 never sees \<open>pi[1] = 9/10\<close>.
\<close>

theorem cpp_pzib_reads_pi_by_prob_length:
  "cpp_pzib pbinom [Fin 0] [Fin 1] [Fin (1/2)] [Fin (1/10), Fin (9/10)] True False
     = Inr [dadd (Fin (1/10)) (dmul (Fin (9/10)) (pbinom (Fin 0) (Fin 1) (Fin (1/2)))),
            dadd (Fin (1/10)) (dmul (Fin (9/10)) (pbinom (Fin 0) (Fin 1) (Fin (1/2))))]"
  by (simp add: cpp_pzib_def Nmax_of_def upt_0_2 rec_at_def ebind_def nonneg_or_nan_def
      zeroone_or_nan_def cdf_zib_def ISNAN_def isinf_def dsub_def)

text \<open>
  The same slip in \<open>cpp_qzib\<close>, and in \<open>cpp_dprop\<close>, which reads \<open>size\<close> modulo the length of
  \<open>mean\<close> and \<open>mean\<close> modulo the length of \<open>size\<close>: as soon as the two lengths differ, one
  of the reads is past the end of its vector.
\<close>

lemma cpp_qzib_reads_pi_by_prob_length:
  "cpp_qzib qbinom [Fin (1/2)] [Fin 1] [Fin (1/2)] [Fin (1/10), Fin (9/10)] True False
     = Inr [qbinom (Fin (4/9)) (Fin 1) (Fin (1/2)), qbinom (Fin (4/9)) (Fin 1) (Fin (1/2))]"
  by (simp add: cpp_qzib_def Nmax_of_def upt_0_2 rec_at_def ebind_def nonneg_or_nan_def
      zeroone_or_nan_def invcdf_zib_def ISNAN_def dsub_def)

lemma cpp_dprop_swapped_lengths:
  "cpp_dprop dbeta [Fin (1/2)] [Fin 1, Fin 2] [Fin (1/2)] False = Inl OutOfBounds"
  by (simp add: cpp_dprop_def Nmax_of_def upt_0_2 rec_at_def ebind_def pdf_prop_def ISNAN_def
      dle_def dsub_def)

section \<open>The upper tail of the power distribution\<close>

text \<open>
  The Kumaraswamy driver complements the lower-tail probability itself: the upper tail
  at the median of the uniform case is one half.
\<close>

lemma cpp_pkumar_upper_tail:
  "cpp_pkumar [Fin (1/2)] [Fin 1] [Fin 1] False False = Inr ([Fin (1/2)], [])"
  by (simp add: cpp_pkumar_def Nmax_of_def rec_at_def ebind_def cdf_kumar_def ISNAN_def dle_def
      dsub_def dpow_def)

text \<open>
  C2. An upper-tail probability should be one minus the lower-tail probability, with the
  logarithm taken afterwards. \<open>cpp_ppower\<close> fills the vector with log-probabilities and
  subtracts those from one: at \<open>x = 1\<close>, \<open>alpha = 2\<close>, \<open>beta = 1\<close> the lower tail is \<open>1/2\<close>, and
  the upper tail returned is \<open>exp (1 - ln (1/2)) = 2 e\<close>, which is not a probability.
\<close>

theorem cpp_ppower_upper_tail_in_log_space:
  "cpp_ppower [Fin 1] [Fin 2] [Fin 1] False False = Inr [Fin (2 * exp 1)]"
  by (simp add: cpp_ppower_def Nmax_of_def rec_at_def ebind_def logcdf_power_def ISNAN_def
      dle_def dsub_def exp_add)

lemma cpp_ppower_lower_tail:
  "cpp_ppower [Fin 1] [Fin 2] [Fin 1] True False = Inr [Fin (1/2)]"
  by (simp add: cpp_ppower_def Nmax_of_def rec_at_def ebind_def logcdf_power_def ISNAN_def
      dle_def dsub_def exp_minus inverse_eq_divide)

section \<open>Missing inputs\<close>


text \<open>
  The Laplace kernels have no test for a missing input: with a missing \<open>x\<close> and a negative
  scale the density warns.
\<close>

lemma pdf_laplace_missing_x: "pdf_laplace NA (Fin 0) (Fin (- 1)) = (NaN, [''NaNs produced''])"
  by (simp add: pdf_laplace_def dle_def ISNAN_def)



section \<open>The Tukey-lambda quantile\<close>

text \<open>
  C9. For a probability \<open>p\<close> strictly between 0 and 1 the quantile kernel returns, with the
  flag untouched, the logistic quantile \<open>ln p - ln (1 - p) = ln (p / (1 - p))\<close> when
  \<open>lambda\<close> is exactly 0, through a branch of its own, and
  \<open>(p^lambda - (1 - p)^lambda) / lambda\<close> for every other lambda that is not missing: as a
  real number when lambda is finite, and as the same expression in double arithmetic
  when lambda is an infinity.
\<close>

theorem invcdf_tlambda_formula:
  "0 < p \<Longrightarrow> p < 1 \<Longrightarrow>
   invcdf_tlambda (Fin p) (Fin 0) w = (Fin (ln p - ln (1 - p)), w) \<and>
   ln p - ln (1 - p) = ln (p / (1 - p)) \<and>
   (lam \<noteq> 0 \<longrightarrow>
      invcdf_tlambda (Fin p) (Fin lam) w = (Fin ((p powr lam - (1 - p) powr lam) / lam), w)) \<and>
   (\<not> ISNAN l \<longrightarrow> \<not> deq l (Fin 0) \<longrightarrow>
      invcdf_tlambda (Fin p) l w =
        (ddiv (dsub (dpow (Fin p) l) (dpow (Fin (1 - p)) l)) l, w))"
  by (simp add: invcdf_tlambda_def ISNAN_def VALID_PROB_def dle_def deq_def dsub_def dpow_def
      ln_div)

theorem invcdf_tlambda_formula_witness:
  "invcdf_tlambda (Fin (1/4)) (Fin 2) False = (Fin (- (1/4)), False) \<and>
   invcdf_tlambda (Fin (1/4)) (Fin 0) False = (Fin (ln (1/4) - ln (3/4)), False) \<and>
   invcdf_tlambda (Fin (1/4)) PInf False = (Fin 0, False)"
  using invcdf_tlambda_formula [of "1/4" False 2 PInf]
  by (simp add: ISNAN_def deq_def dpow_def dsub_def power2_eq_square)

section \<open>The zero-inflated binomial kernels\<close>

text \<open>
  C5. With a whole size \<open>k \<ge> 0\<close>, \<open>p\<close> in \<open>[0, 1]\<close> and \<open>pi = q\<close> in \<open>[0, 1]\<close>: the mass at 0
  is \<open>q + (1 - q) (1 - p)^k\<close>; the mass at a whole \<open>m > 0\<close> is \<open>1 - q\<close> times the binomial
  mass at \<open>m\<close>; the cumulative probability at \<open>x \<ge> 0\<close> is \<open>q\<close> plus \<open>1 - q\<close> times the
  binomial cumulative probability at \<open>x\<close> (and 1 at infinity); the quantile at \<open>pp\<close> is 0
  when \<open>pp < q\<close> and otherwise the binomial quantile at \<open>(pp - q) / (1 - q)\<close>.
\<close>

theorem zib_kernels:
  "0 \<le> p \<Longrightarrow> p \<le> 1 \<Longrightarrow> 0 \<le> q \<Longrightarrow> q \<le> 1 \<Longrightarrow>
   pdf_zib dbinom (Fin 0) (Fin (real k)) (Fin p) (Fin q) = Fin (q + (1 - q) * (1 - p) ^ k) \<and>
   (0 < m \<longrightarrow>
      pdf_zib dbinom (Fin (real m)) (Fin (real k)) (Fin p) (Fin q)
        = dmul (Fin (1 - q)) (dbinom (Fin (real m)) (Fin (real k)) (Fin p))) \<and>
   (0 \<le> x \<longrightarrow>
      cdf_zib pbinom (Fin x) (Fin (real k)) (Fin p) (Fin q)
        = dadd (Fin q) (dmul (Fin (1 - q)) (pbinom (Fin x) (Fin (real k)) (Fin p)))) \<and>
   cdf_zib pbinom PInf (Fin (real k)) (Fin p) (Fin q) = Fin 1 \<and>
   (pp < q \<longrightarrow> invcdf_zib qbinom (Fin pp) (Fin (real k)) (Fin p) (Fin q) = Fin 0) \<and>
   (q \<le> pp \<longrightarrow>
      invcdf_zib qbinom (Fin pp) (Fin (real k)) (Fin p) (Fin q)
        = qbinom (ddiv (Fin (pp - q)) (Fin (1 - q))) (Fin (real k)) (Fin p)) \<and>
   (q < 1 \<longrightarrow> ddiv (Fin (pp - q)) (Fin (1 - q)) = Fin ((pp - q) / (1 - q)))"
  by (simp add: pdf_zib_def cdf_zib_def invcdf_zib_def ISNAN_def isInteger_def deq_def isinf_def
      dsub_def dpow_nat)

theorem zib_kernels_witness:
  "pdf_zib (\<lambda>x n p. Fin (1/2)) (Fin 0) (Fin 2) (Fin (1/2)) (Fin (1/4)) = Fin (7/16) \<and>
   pdf_zib (\<lambda>x n p. Fin (1/2)) (Fin 1) (Fin 2) (Fin (1/2)) (Fin (1/4)) = Fin (3/8) \<and>
   cdf_zib (\<lambda>x n p. Fin (1/2)) (Fin 1) (Fin 2) (Fin (1/2)) (Fin (1/4)) = Fin (5/8) \<and>
   invcdf_zib (\<lambda>x n p. x) (Fin (1/8)) (Fin 2) (Fin (1/2)) (Fin (1/4)) = Fin 0 \<and>
   invcdf_zib (\<lambda>x n p. x) (Fin (1/2)) (Fin 2) (Fin (1/2)) (Fin (1/4)) = Fin (1/3)"
  using zib_kernels [of "1/2" "1/4" "\<lambda>x n p. Fin (1/2)" 2 1 1 "\<lambda>x n p. Fin (1/2)" "1/8"
      "\<lambda>x n p. x"]
    zib_kernels [of "1/2" "1/4" "\<lambda>x n p. Fin (1/2)" 2 1 1 "\<lambda>x n p. Fin (1/2)" "1/2"
      "\<lambda>x n p. x"]
  by (simp add: power2_eq_square)

section \<open>Quantile of the distribution function\<close>













section \<open>The gamma-Poisson table\<close>









section \<open>Loops and the bound of the table\<close>




section \<open>The gamma-Poisson distribution-function driver\<close>












section \<open>The cumulative probabilities are monotone and at most one\<close>




















section \<open>Warnings for parameters out of the domain\<close>

















section \<open>The multinomial generator\<close>

text \<open>
  With R's binomial sampler, a size that is a whole number \<open>n \<ge> 0\<close> and a row of
  non-negative weights whose last two are not both zero, every draw has a valid
  probability, the counts are whole, and the row sums to \<open>n\<close>: the remaining mass
  \<open>sum_p\<close> is positive at each draw.
\<close>

lemma R_rbinom_range:
  assumes "is_whole n" "0 \<le> n" "0 \<le> p" "p \<le> 1"
  shows "\<exists>c. R_rbinom draw t (Fin n) (Fin p) = Fin c \<and> is_whole c \<and> 0 \<le> c \<and> c \<le> n"
proof -
  have n: "real (nat \<lfloor>n\<rfloor>) = n" using assms(1,2) by (simp add: is_whole_def)
  have w: "is_whole (real (min (draw t) (nat \<lfloor>n\<rfloor>)))" by (simp add: is_whole_def)
  have le: "real (min (draw t) (nat \<lfloor>n\<rfloor>)) \<le> n"
    using n by (metis min.cobounded2 of_nat_le_iff)
  have z: "is_whole 0" by (simp add: is_whole_def)
  have guard: "\<not> (n < 0 \<or> p < 0 \<or> 1 < p \<or> \<not> is_whole n)" using assms by simp
  consider "n = 0 \<or> p = 0" | "\<not> (n = 0 \<or> p = 0)" "p = 1" | "\<not> (n = 0 \<or> p = 0)" "p \<noteq> 1"
    by blast
  then show ?thesis
  proof cases
    case 1
    then have "R_rbinom draw t (Fin n) (Fin p) = Fin 0"
      using guard by (simp add: R_rbinom_def)
    then show ?thesis using z assms(2) by blast
  next
    case 2
    then have "R_rbinom draw t (Fin n) (Fin p) = Fin n"
      using guard by (simp add: R_rbinom_def)
    then show ?thesis using assms(1,2) by blast
  next
    case 3
    then have "R_rbinom draw t (Fin n) (Fin p) = Fin (real (min (draw t) (nat \<lfloor>n\<rfloor>)))"
      using guard by (simp add: R_rbinom_def)
    then show ?thesis using w le by (intro exI[of _ "real (min (draw t) (nat \<lfloor>n\<rfloor>))"]) simp
  qed
qed

lemma is_whole_diff: "is_whole a \<Longrightarrow> is_whole b \<Longrightarrow> is_whole (a - b)"
  unfolding is_whole_def by (metis of_int_diff floor_of_int)

lemma mnom_draw_sum:
  assumes "0 < P" "\<forall>w\<in>set ws. 0 \<le> w" "0 \<le> lw" "sp * P = sum_list ws + lw"
    and "is_whole sl" "0 \<le> sl" "ws \<noteq> [] \<longrightarrow> 0 < last ws + lw"
  shows "\<exists>cs sl' sp'.
           mnom_draw (R_rbinom draw) (Fin P) (map Fin ws) (t, Fin sl, Fin sp)
             = (map Fin cs, (t + length ws, Fin sl', Fin sp')) \<and>
           length cs = length ws \<and> sum_list cs + sl' = sl \<and> is_whole sl' \<and> 0 \<le> sl'"
  using assms
proof (induction ws arbitrary: t sl sp)
  case Nil
  then show ?case by simp
next
  case (Cons v ws)
  have v: "0 \<le> v" and ws: "\<forall>w\<in>set ws. 0 \<le> w" using Cons.prems(2) by simp_all
  have sums: "0 \<le> sum_list ws" using ws by (simp add: sum_list_nonneg)
  have S: "0 < sum_list (v # ws) + lw"
  proof (cases "ws = []")
    case True
    then show ?thesis using Cons.prems(7) by simp
  next
    case False
    then have "0 < last ws + lw" using Cons.prems(7) by simp
    moreover have "last ws \<le> sum_list ws"
      using False ws by (metis last_in_set member_le_sum_list)
    ultimately show ?thesis using v by simp
  qed
  have sp: "sp = (sum_list (v # ws) + lw) / P" using Cons.prems(1,4) by (simp add: field_simps)
  have sp0: "0 < sp" using S Cons.prems(1) sp by simp
  have ratio: "v / P / sp = v / (sum_list (v # ws) + lw)"
    using Cons.prems(1) S sp by (simp add: field_simps)
  have r0: "0 \<le> v / P / sp" using v Cons.prems(1) sp0 by simp
  have r1: "v / P / sp \<le> 1"
    unfolding ratio using S v sums Cons.prems(3) by (simp add: field_simps)
  obtain c where c: "R_rbinom draw t (Fin sl) (Fin (v / P / sp)) = Fin c" "is_whole c" "0 \<le> c" "c \<le> sl"
    using R_rbinom_range[OF Cons.prems(5,6) r0 r1] by blast
  have next_sp: "(sp - v / P) * P = sum_list ws + lw"
    using Cons.prems(1,4) by (simp add: field_simps)
  have "\<exists>cs sl' sp'.
           mnom_draw (R_rbinom draw) (Fin P) (map Fin ws) (Suc t, Fin (sl - c), Fin (sp - v / P))
             = (map Fin cs, (Suc t + length ws, Fin sl', Fin sp')) \<and>
           length cs = length ws \<and> sum_list cs + sl' = sl - c \<and> is_whole sl' \<and> 0 \<le> sl'"
  proof (rule Cons.IH)
    show "0 < P" by fact
    show "\<forall>w\<in>set ws. 0 \<le> w" by fact
    show "0 \<le> lw" by fact
    show "(sp - v / P) * P = sum_list ws + lw" by fact
    show "is_whole (sl - c)" using Cons.prems(5) c(2) by (rule is_whole_diff)
    show "0 \<le> sl - c" using c(4) by simp
    show "ws \<noteq> [] \<longrightarrow> 0 < last ws + lw" using Cons.prems(7) by (cases "ws = []") simp_all
  qed
  then obtain cs sl' sp' where
    rec: "mnom_draw (R_rbinom draw) (Fin P) (map Fin ws) (Suc t, Fin (sl - c), Fin (sp - v / P))
             = (map Fin cs, (Suc t + length ws, Fin sl', Fin sp'))"
    and props: "length cs = length ws" "sum_list cs + sl' = sl - c" "is_whole sl'" "0 \<le> sl'"
    by blast
  have "mnom_draw (R_rbinom draw) (Fin P) (map Fin (v # ws)) (t, Fin sl, Fin sp)
          = (map Fin (c # cs), (t + length (v # ws), Fin sl', Fin sp'))"
    using Cons.prems(1) sp0 c(1) rec by (simp add: dsub_Fin Let_def)
  moreover have "length (c # cs) = length (v # ws)" using props by simp
  moreover have "sum_list (c # cs) + sl' = sl" using props by simp
  ultimately show ?case using props by blast
qed

lemma mnom_check_ok:
  "\<forall>w\<in>set ws. 0 \<le> w \<Longrightarrow> mnom_check (map Fin ws) (Fin acc) = (False, Fin (acc + sum_list ws))"
  by (induction ws arbitrary: acc) (simp_all add: ISNAN_def add.assoc)

lemma rmnom_row_sums:
  assumes "is_whole n" "0 \<le> n" "\<forall>w\<in>set ws. 0 \<le> w" "0 \<le> lw"
    and "ws \<noteq> [] \<longrightarrow> 0 < last ws + lw"
  shows "\<exists>cs t'. rmnom_row (R_rbinom draw) (Suc (length ws)) (Fin n) (map Fin (ws @ [lw])) (t, w)
                    = Inr (map Fin cs, (t', w)) \<and>
                  length cs = Suc (length ws) \<and> sum_list cs = n"
proof -
  let ?P = "sum_list ws + lw"
  have chk: "mnom_check (take (Suc (length ws)) (map Fin (ws @ [lw]))) (Fin 0) = (False, Fin ?P)"
    using mnom_check_ok[of "ws @ [lw]" 0] assms(3,4) by simp
  have tk: "take (Suc (length ws) - 1) (map Fin (ws @ [lw])) = map Fin ws" by simp
  have valid: "\<not> (ISNAN (Fin n) \<or> dlt (Fin n) (Fin 0) \<or> \<not> isInteger (Fin n))"
    using assms(1,2) by (simp add: ISNAN_def isInteger_def deq_def is_whole_def)
  show ?thesis
  proof (cases "ws = []")
    case True
    then have "rmnom_row (R_rbinom draw) (Suc (length ws)) (Fin n) (map Fin (ws @ [lw])) (t, w)
            = Inr (map Fin [n], (t, w))"
      using valid chk by (simp add: rmnom_row_def)
    then show ?thesis using True by (intro exI[of _ "[n]"] exI[of _ t]) simp
  next
    case False
    then have "0 < last ws + lw" using assms(5) by simp
    moreover have "last ws \<le> sum_list ws"
      using False assms(3) by (metis last_in_set member_le_sum_list)
    ultimately have P: "0 < ?P" by simp
    obtain cs sl' sp' where
      d: "mnom_draw (R_rbinom draw) (Fin ?P) (map Fin ws) (t, Fin n, Fin 1)
             = (map Fin cs, (t + length ws, Fin sl', Fin sp'))"
      and props: "length cs = length ws" "sum_list cs + sl' = n"
      using mnom_draw_sum[OF P assms(3,4) _ assms(1,2,5), of 1 draw t] by auto
    have "rmnom_row (R_rbinom draw) (Suc (length ws)) (Fin n) (map Fin (ws @ [lw])) (t, w)
            = Inr (map Fin (cs @ [sl']), (t + length ws, w))"
      using valid chk d unfolding rmnom_row_def tk by simp
    moreover have "length (cs @ [sl']) = Suc (length ws)" using props by simp
    moreover have "sum_list (cs @ [sl']) = n" using props by simp
    ultimately show ?thesis by blast
  qed
qed

text \<open>
  A row with weight left for the last two categories, here \<open>(1/2, 1/2, 0)\<close>: the second
  draw has probability 1 and takes what is left of the size.
\<close>

lemma cpp_rmnom_last_zero:
  "cpp_rmnom (R_rbinom draw) 1 [Fin 3] [[Fin (1/2), Fin (1/2), Fin 0]]
     = Inr ([[Fin (real (min (draw 0) 3)), Fin (3 - real (min (draw 0) 3)), Fin 0]], [])"
  by (simp add: cpp_rmnom_def ncol_def rec_at_def ebind_def rmnom_row_def ISNAN_def isInteger_def
      deq_def R_rbinom_def is_whole_def dsub_def Let_def)

text \<open>
  C8. A generated row should sum to the declared size for every valid size and row. The
  loop divides the normalized weight by the remaining mass \<open>sum_p\<close> without a test for an
  exhausted mass: for the size 3 and the row \<open>(1, 0, 0)\<close> the first draw has probability
  \<open>1 / 1\<close> and returns 3, \<open>sum_p\<close> becomes 0, the second draw has probability \<open>0 / 0\<close>, a
  not-a-number, for which the sampler returns a not-a-number, and the remaining size and
  the last cell are not-a-numbers as well. No warning is raised by the driver.
\<close>

theorem cpp_rmnom_exhausted_mass:
  "cpp_rmnom (R_rbinom draw) 1 [Fin 3] [[Fin 1, Fin 0, Fin 0]] = Inr ([[Fin 3, NaN, NaN]], [])"
  by (simp add: cpp_rmnom_def ncol_def rec_at_def ebind_def rmnom_row_def ISNAN_def isInteger_def
      deq_def R_rbinom_def is_whole_def dsub_def)

end
